theory Spec2Isabelle
  imports Complex_Main "HOL-Library.AList"
begin

section \<open>The two converter scripts\<close>

text \<open>
  The repository holds two near-duplicate converter scripts with the same functions
  (\<open>renderer.heading\<close>, \<open>renderer.code\<close>, \<open>addBookmarksToPdf\<close>, \<open>mdToPdf\<close>):
  \<^item> \<open>src/server/md2pdf-converter.js\<close>, the script the HTTP server spawns (\<open>Server\<close>);
  \<^item> the stand-alone script in \<open>src/unnamed/part_002\<close> (\<open>Standalone\<close>).
  Every definition below that differs between the two takes the script as its first argument.

  JavaScript strings are modelled as \<open>string\<close>: lists of 8-bit code units, the Latin-1 part
  of JavaScript's UTF-16 code units. JavaScript numbers that hold pixel offsets and page heights
  are finite doubles in the program; they are modelled as reals, so rounding of the division is
  not part of the model.
\<close>

datatype variant = Server | Standalone

section \<open>Strings\<close>

text \<open>The character class \<open>\w\<close> of a JavaScript regular expression without the \<open>u\<close> flag:
  \<open>[A-Za-z0-9_]\<close>.\<close>

definition isWordChar :: "char \<Rightarrow> bool" where
  "isWordChar c \<longleftrightarrow>
     (let n = (of_char c :: nat)
      in (65 \<le> n \<and> n \<le> 90) \<or> (97 \<le> n \<and> n \<le> 122) \<or> (48 \<le> n \<and> n \<le> 57) \<or> n = 95)"

text \<open>\<open>String.prototype.toLowerCase\<close> on one Latin-1 code unit: \<open>A\<close>-\<open>Z\<close> and the accented
  capitals \<open>0xC0\<close>-\<open>0xDE\<close> (without the multiplication sign \<open>0xD7\<close>) move up by 32.\<close>

definition toLowerChar :: "char \<Rightarrow> char" where
  "toLowerChar c =
     (let n = (of_char c :: nat)
      in if (65 \<le> n \<and> n \<le> 90) \<or> (192 \<le> n \<and> n \<le> 222 \<and> n \<noteq> 215) then char_of (n + 32) else c)"

definition toLowerCase :: "string \<Rightarrow> string" where
  "toLowerCase s = map toLowerChar s"

text \<open>\<open>s.replace(/[^\w]+/g, '-')\<close>: every maximal run of non-word characters becomes one
  hyphen.\<close>

function replaceNonWord :: "string \<Rightarrow> string" where
  "replaceNonWord [] = []"
| "replaceNonWord (c # cs) =
     (if isWordChar c then c # replaceNonWord cs
      else CHR ''-'' # replaceNonWord (dropWhile (\<lambda>d. \<not> isWordChar d) cs))"
  by pat_completeness auto
termination
  by (relation "measure length") (auto simp: length_dropWhile_le less_Suc_eq_le)

text \<open>A template literal turns a number into its decimal digits.\<close>

fun numToString :: "nat \<Rightarrow> string" where
  "numToString n =
     (if n < 10 then [''0123456789'' ! n]
      else numToString (n div 10) @ [''0123456789'' ! (n mod 10)])"

section \<open>The Markdown renderer adapter\<close>

text \<open>An entry of the module-level array \<open>headings\<close>: \<open>{ level, text: raw, id }\<close>.\<close>

record heading =
  h_level :: nat
  h_text :: string
  h_id :: string

text \<open>
  \<open>renderer.heading = function (text, level, raw)\<close>. The function reads and extends the
  module-level array \<open>headings\<close>, which is passed in and returned. The first component of
  the result is the returned HTML.
\<close>

definition renderer_heading ::
  "variant \<Rightarrow> string \<Rightarrow> nat \<Rightarrow> string \<Rightarrow> heading list \<Rightarrow> string \<times> heading list" where
  \<open>renderer_heading v text level raw headings =
     (let id = replaceNonWord (toLowerCase raw);
          headings' = headings @ [\<lparr>h_level = level, h_text = raw, h_id = id\<rparr>];
          n = numToString level
      in (case v of
            Server \<Rightarrow> ''<h'' @ n @ '' id="'' @ id @ ''">'' @ text @ ''</h'' @ n @ ''>''
          | Standalone \<Rightarrow>
              ''<h'' @ n @ '' id="'' @ id @ ''" class="section-heading level-'' @ n @ ''">''
                @ text @ ''</h'' @ n @ ''>'',
          headings'))\<close>

text \<open>The table \<open>map\<close> of the stand-alone script's \<open>renderer.code\<close>, applied by the callback
  \<open>(char) => map[char]\<close> to each match of \<open>/[&<>"']/g\<close>; any other character is not matched
  and stays.\<close>

definition escapeChar :: "char \<Rightarrow> string" where
  \<open>escapeChar c =
     (if c = CHR ''&'' then ''&amp;''
      else if c = CHR ''<'' then ''&lt;''
      else if c = CHR ''>'' then ''&gt;''
      else if c = CHR 0x22 then ''&quot;''
      else if c = CHR 0x27 then ''&#39;''
      else [c])\<close>

definition escapeCode :: "string \<Rightarrow> string" where
  "escapeCode code = concat (map escapeChar code)"

text \<open>
  \<open>renderer.code = function (code, language)\<close>. \<open>language\<close> is \<open>None\<close> when the fence has no
  info string (\<open>undefined\<close>); \<open>language || 'plaintext'\<close> also replaces the empty string.
  Only the stand-alone script escapes the code.
\<close>

definition renderer_code :: "variant \<Rightarrow> string \<Rightarrow> string option \<Rightarrow> string" where
  \<open>renderer_code v code language =
     (let lang = (case language of None \<Rightarrow> ''plaintext''
                  | Some l \<Rightarrow> if l = [] then ''plaintext'' else l);
          validLang = toLowerCase lang
      in (case v of
            Server \<Rightarrow>
              ''<pre><code class="language-'' @ validLang @ ''">'' @ code @ ''</code></pre>''
          | Standalone \<Rightarrow>
              ''<pre><code class="language-'' @ validLang @ ''">'' @ escapeCode code
                @ ''</code></pre>''))\<close>

text \<open>
  \<open>marked.parse(markdown)\<close> belongs to the library \<open>marked\<close>. Its lexer turns the source into
  tokens; its parser walks them in document order, calls the renderer method of each token and
  concatenates the returned HTML. A document is given here by the sequence of pieces that make
  up the parser's output, in document order: one piece for each call of \<open>renderer.heading\<close>,
  with the three arguments the parser passes (rendered inline HTML, depth, and the string
  passed as \<open>raw\<close>); one for each call of \<open>renderer.code\<close>, with its two arguments; and the
  HTML that the library's own renderer methods put before, between and after them (for a
  heading inside a block quote: the opening tag, then the heading, then the closing tag).
\<close>

datatype token =
  Heading string nat string
| Code string "string option"
| Html string

fun parse :: "variant \<Rightarrow> token list \<Rightarrow> heading list \<Rightarrow> string \<times> heading list" where
  "parse v [] headings = ([], headings)"
| "parse v (Heading text level raw # ts) headings =
     (let (out, headings') = renderer_heading v text level raw headings;
          (rest, headings'') = parse v ts headings'
      in (out @ rest, headings''))"
| "parse v (Code code language # ts) headings =
     (let (rest, headings') = parse v ts headings
      in (renderer_code v code language @ rest, headings'))"
| "parse v (Html s # ts) headings =
     (let (rest, headings') = parse v ts headings
      in (s @ rest, headings'))"

section \<open>The PDF object graph\<close>

text \<open>
  The objects of the library \<open>pdf-lib\<close> that the converter builds. An indirect reference is
  its object number (the generation number is always 0). \<open>context.obj\<close> maps a JavaScript
  string to a name object, a number to a number object, \<open>null\<close> to the null object, an array to
  an array object and an object literal to a dictionary whose keys keep their insertion order;
  a value that already is a PDF object (a reference) stays as it is. \<open>PDFName s\<close> stands for
  the name object that the library builds from the JavaScript string \<open>s\<close>.
\<close>

datatype pdf_obj =
  PDFNull
| PDFName string
| PDFNumber real
| PDFRef nat
| PDFArray "pdf_obj list"
| PDFDict "(string \<times> pdf_obj) list"

datatype js_error = TypeError | TimeoutError

text \<open>A page of the loaded document: \<open>page.ref\<close> and \<open>page.getHeight()\<close>.\<close>

record pdf_page =
  p_ref :: nat
  p_height :: real

text \<open>\<open>pdfDoc.context\<close>: the counter behind \<open>nextRef\<close> and the table of indirect objects.\<close>

record pdf_context =
  largestObjectNumber :: nat
  indirectObjects :: "nat \<rightharpoonup> pdf_obj"

text \<open>
  A loaded document: its context, the catalog dictionary (\<open>pdfDoc.catalog\<close>) and the page
  array (\<open>pdfDoc.getPages()\<close>). The bytes of a PDF file are identified with the document
  that \<open>PDFDocument.load\<close> reads from them and \<open>pdfDoc.save()\<close> writes.
\<close>

record pdf_doc =
  ctx :: pdf_context
  catalog :: "(string \<times> pdf_obj) list"
  pages :: "pdf_page list"

definition nextRef :: "pdf_context \<Rightarrow> nat \<times> pdf_context" where
  "nextRef c =
     (largestObjectNumber c + 1, c\<lparr>largestObjectNumber := largestObjectNumber c + 1\<rparr>)"

definition assign :: "nat \<Rightarrow> pdf_obj \<Rightarrow> pdf_context \<Rightarrow> pdf_context" where
  "assign r ob c =
     c\<lparr>indirectObjects := (indirectObjects c)(r \<mapsto> ob),
       largestObjectNumber := max r (largestObjectNumber c)\<rparr>"

text \<open>\<open>dict.set(key, value)\<close>: a present key keeps its place, a new key goes to the end.\<close>

definition dict_set :: "string \<Rightarrow> pdf_obj \<Rightarrow> (string \<times> pdf_obj) list \<Rightarrow> (string \<times> pdf_obj) list" where
  "dict_set k ob kvs = AList.update k ob kvs"

definition dict_get :: "(string \<times> pdf_obj) list \<Rightarrow> string \<Rightarrow> pdf_obj option" where
  "dict_get kvs k = map_of kvs k"

section \<open>The outline synthesizer\<close>

text \<open>An entry of \<open>bookmarkData\<close>: \<open>{ title, level, top }\<close>.\<close>

record bookmark =
  b_title :: string
  b_level :: nat
  b_top :: real

text \<open>\<open>Math.floor(bookmark.top / 900)\<close> in the server script,
  \<open>Math.floor(bookmark.top / 841.89)\<close> in the stand-alone script, for \<open>t = bookmark.top\<close>.\<close>

definition pageNum :: "variant \<Rightarrow> real \<Rightarrow> int" where
  "pageNum v t = (case v of Server \<Rightarrow> \<lfloor>t / 900\<rfloor> | Standalone \<Rightarrow> \<lfloor>t / 841.89\<rfloor>)"

text \<open>The index used to read the page array, for \<open>n = pages.length\<close>:
  \<open>Math.min(pageNum, pages.length - 1)\<close> in the server script,
  \<open>Math.min(Math.max(0, pageNum), pages.length - 1)\<close> in the stand-alone script.\<close>

definition targetPageIdx :: "variant \<Rightarrow> real \<Rightarrow> nat \<Rightarrow> int" where
  "targetPageIdx v t n =
     (case v of
        Server \<Rightarrow> min (pageNum v t) (int n - 1)
      | Standalone \<Rightarrow> min (max 0 (pageNum v t)) (int n - 1))"

text \<open>\<open>pages[k]\<close>: \<open>undefined\<close> (here \<open>None\<close>) outside the array.\<close>

definition pageAt :: "pdf_page list \<Rightarrow> int \<Rightarrow> pdf_page option" where
  "pageAt ps k = (if 0 \<le> k \<and> k < int (length ps) then Some (ps ! nat k) else None)"

text \<open>\<open>bookmarks.map(() => context.nextRef())\<close>.\<close>

fun nextRefs :: "'a list \<Rightarrow> pdf_context \<Rightarrow> nat list \<times> pdf_context" where
  "nextRefs [] c = ([], c)"
| "nextRefs (b # bs) c =
     (let (r, c') = nextRef c;
          (rs, c'') = nextRefs bs c'
      in (r # rs, c''))"

text \<open>The dictionary \<open>context.obj(itemDict)\<close> of the \<open>i\<close>-th bookmark, of \<open>n\<close>.\<close>

definition itemDict ::
  "nat \<Rightarrow> nat list \<Rightarrow> nat \<Rightarrow> nat \<Rightarrow> bookmark \<Rightarrow> pdf_page \<Rightarrow> real \<Rightarrow> (string \<times> pdf_obj) list" where
  "itemDict outlineRef itemRefs n i bookmark page pageHeight =
     [(''Title'', PDFName (b_title bookmark)),
      (''Parent'', PDFRef outlineRef),
      (''Dest'', PDFArray [PDFRef (p_ref page), PDFName ''XYZ'', PDFNull, PDFNumber pageHeight, PDFNull])]
     @ (if i > 0 then [(''Prev'', PDFRef (itemRefs ! (i - 1)))] else [])
     @ (if i < n - 1 then [(''Next'', PDFRef (itemRefs ! (i + 1)))] else [])"

text \<open>The loop \<open>for (let i = 0; i < bookmarks.length; i++)\<close>, from index \<open>i\<close> on. Reading
  \<open>page.ref\<close> of an \<open>undefined\<close> page throws a \<open>TypeError\<close>.\<close>

function items_loop ::
  "variant \<Rightarrow> pdf_page list \<Rightarrow> real \<Rightarrow> nat \<Rightarrow> nat list \<Rightarrow> bookmark list \<Rightarrow> nat \<Rightarrow> pdf_context
     \<Rightarrow> js_error + pdf_context" where
  "items_loop v ps pageHeight outlineRef itemRefs bookmarks i c =
     (if i < length bookmarks then
        (case pageAt ps (targetPageIdx v (b_top (bookmarks ! i)) (length ps)) of
           None \<Rightarrow> Inl TypeError
         | Some page \<Rightarrow>
             items_loop v ps pageHeight outlineRef itemRefs bookmarks (i + 1)
               (assign (itemRefs ! i)
                  (PDFDict (itemDict outlineRef itemRefs (length bookmarks) i (bookmarks ! i) page pageHeight))
                  c))
      else Inr c)"
  by pat_completeness auto
termination
  by (relation "measure (\<lambda>(v, ps, pageHeight, outlineRef, itemRefs, bookmarks, i, c). length bookmarks - i)")
    auto

declare items_loop.simps [simp del]

text \<open>
  \<open>addBookmarksToPdf(pdfBuffer, outputPath, bookmarks)\<close>. The result is the document whose
  bytes \<open>fs.writeFileSync\<close> writes to \<open>outputPath\<close>, or the error thrown before anything is
  written. \<open>pages[0].getHeight()\<close> throws a \<open>TypeError\<close> on a document without pages.
\<close>

definition addBookmarksToPdf :: "variant \<Rightarrow> pdf_doc \<Rightarrow> bookmark list \<Rightarrow> js_error + pdf_doc" where
  "addBookmarksToPdf v pdfDoc bookmarks =
     (if length bookmarks = 0 then Inr pdfDoc
      else
        (case pages pdfDoc of
           [] \<Rightarrow> Inl TypeError
         | p0 # _ \<Rightarrow>
             (let pageHeight = p_height p0;
                  (outlineRef, c1) = nextRef (ctx pdfDoc);
                  outlineDict0 = [(''Type'', PDFName ''Outlines'')];
                  (itemRefs, c2) = nextRefs bookmarks c1
              in (case items_loop v (pages pdfDoc) pageHeight outlineRef itemRefs bookmarks 0 c2 of
                    Inl e \<Rightarrow> Inl e
                  | Inr c3 \<Rightarrow>
                      (let outlineDict1 = dict_set ''First'' (PDFRef (itemRefs ! 0)) outlineDict0;
                           outlineDict2 =
                             dict_set ''Last'' (PDFRef (itemRefs ! (length itemRefs - 1))) outlineDict1;
                           outlineDict3 =
                             dict_set ''Count'' (PDFNumber (real (length bookmarks))) outlineDict2;
                           c4 = assign outlineRef (PDFDict outlineDict3) c3
                       in Inr (pdfDoc\<lparr>ctx := c4,
                                 catalog := dict_set ''Outlines'' (PDFRef outlineRef) (catalog pdfDoc)\<rparr>))))))"

section \<open>The conversion\<close>

text \<open>
  What the converter observes of the headless browser page once \<open>page.setContent\<close> has
  returned: the time in milliseconds, counted from the start of the wait, at which the page
  script sets the render-complete flag (\<open>None\<close> when it never does); the elements that carry
  an \<open>id\<close>, in document order, each with \<open>window.scrollY + rect.top\<close>; and the document that
  \<open>page.pdf\<close> prints.
\<close>

record page_state =
  readyAt :: "nat option"
  elements :: "(string \<times> real) list"
  printed :: pdf_doc

text \<open>The \<open>timeout\<close> option of the wait: \<open>page.waitForSelector('body.render-complete',
  { timeout: 30000 })\<close> in the server script, \<open>page.waitForFunction("window.status === 'ready'",
  { timeout: 60000 })\<close> in the stand-alone script.\<close>

definition waitTimeout :: "variant \<Rightarrow> nat" where
  "waitTimeout v = (case v of Server \<Rightarrow> 30000 | Standalone \<Rightarrow> 60000)"

text \<open>The wait of the library \<open>puppeteer\<close>: it resolves when the condition holds and rejects
  with a \<open>TimeoutError\<close> once \<open>timeout\<close> milliseconds have passed without it.\<close>

definition waitFor :: "nat \<Rightarrow> nat option \<Rightarrow> js_error + unit" where
  "waitFor timeout ready =
     (case ready of
        None \<Rightarrow> Inl TimeoutError
      | Some t \<Rightarrow> if t \<le> timeout then Inr () else Inl TimeoutError)"

text \<open>\<open>document.getElementById(id)\<close> returns the first element in document order that
  carries the id, or \<open>null\<close>; the page function returns \<open>{ top: window.scrollY + rect.top }\<close>
  for it.\<close>

definition getElementById :: "(string \<times> real) list \<Rightarrow> string \<Rightarrow> real option" where
  "getElementById els i = map_of els i"

text \<open>The loop \<open>for (const heading of headings)\<close> that fills \<open>bookmarkData\<close>.\<close>

fun collectBookmarks :: "(string \<times> real) list \<Rightarrow> heading list \<Rightarrow> bookmark list" where
  "collectBookmarks els [] = []"
| "collectBookmarks els (h # hs) =
     (case getElementById els (h_id h) of
        None \<Rightarrow> collectBookmarks els hs
      | Some position \<Rightarrow>
          \<lparr>b_title = h_text h, b_level = h_level h, b_top = position\<rparr> # collectBookmarks els hs)"

text \<open>
  \<open>mdToPdf(inputFile, outputFile, title)\<close>. \<open>markdown\<close> stands for the content of
  \<open>inputFile\<close>, \<open>documentTitle\<close> for \<open>title || path.basename(inputFile, '.md')\<close>, and
  \<open>browser documentTitle htmlContent\<close> for the page that the browser shows for the HTML
  document built around these two strings. The fourth argument is the module-level array
  \<open>headings\<close> as the call finds it; the second component of the result is the array as the
  call leaves it. The first component is the document written to \<open>outputFile\<close>, or the
  error with which the promise rejects, in which case nothing is written. The launch of the
  browser, the loading of the page and the printing are taken to succeed; the wait for the
  render-complete flag is the step that can fail here.
\<close>

definition mdToPdf ::
  "variant \<Rightarrow> (string \<Rightarrow> string \<Rightarrow> page_state) \<Rightarrow> token list \<Rightarrow> string \<Rightarrow> heading list
     \<Rightarrow> (js_error + pdf_doc) \<times> heading list" where
  "mdToPdf v browser markdown documentTitle headings0 =
     (let headings1 = [];
          (htmlContent, headings) = parse v markdown headings1;
          page = browser documentTitle htmlContent
      in (case waitFor (waitTimeout v) (readyAt page) of
            Inl e \<Rightarrow> (Inl e, headings)
          | Inr _ \<Rightarrow>
              (let bookmarkData = collectBookmarks (elements page) headings;
                   pdfBuffer = printed page
               in if length bookmarkData > 0
                  then (addBookmarksToPdf v pdfBuffer bookmarkData, headings)
                  else (Inr pdfBuffer, headings))))"

section \<open>Reading the outline back\<close>

text \<open>
  How a reader of the written file finds the outline: the catalog's \<open>Outlines\<close> entry names
  the root dictionary, the root's \<open>First\<close> entry names the first item, and each item's \<open>Next\<close>
  entry names its right sibling. \<open>entry d r k\<close> is the value under key \<open>k\<close> of the dictionary
  stored under reference \<open>r\<close>.
\<close>

definition entry :: "pdf_doc \<Rightarrow> nat \<Rightarrow> string \<Rightarrow> pdf_obj option" where
  "entry d r k =
     (case indirectObjects (ctx d) r of
        Some (PDFDict kvs) \<Rightarrow> dict_get kvs k
      | _ \<Rightarrow> None)"

text \<open>The chain of \<open>Next\<close> links that starts at \<open>r\<close>, cut after \<open>fuel\<close> items.\<close>

fun siblings :: "pdf_doc \<Rightarrow> nat \<Rightarrow> nat \<Rightarrow> nat list" where
  "siblings d 0 r = []"
| "siblings d (Suc fuel) r =
     r # (case entry d r ''Next'' of
            Some (PDFRef r') \<Rightarrow> siblings d fuel r'
          | _ \<Rightarrow> [])"

text \<open>The items of the outline in reading order. A chain without a cycle is no longer than
  the number of objects, which bounds the walk.\<close>

definition outlineItems :: "pdf_doc \<Rightarrow> nat list" where
  "outlineItems d =
     (case dict_get (catalog d) ''Outlines'' of
        Some (PDFRef r) \<Rightarrow>
          (case entry d r ''First'' of
             Some (PDFRef f) \<Rightarrow> siblings d (largestObjectNumber (ctx d)) f
           | _ \<Rightarrow> [])
      | _ \<Rightarrow> [])"

text \<open>The titles of the outline of a conversion result; none when the conversion failed.\<close>

definition outlineTitles :: "js_error + pdf_doc \<Rightarrow> pdf_obj option list" where
  "outlineTitles res =
     (case res of
        Inl e \<Rightarrow> []
      | Inr d \<Rightarrow> map (\<lambda>r. entry d r ''Title'') (outlineItems d))"

text \<open>The title and the destination of each item of the outline of a conversion result.\<close>

definition outlineEntries :: "js_error + pdf_doc \<Rightarrow> (pdf_obj option \<times> pdf_obj option) list" where
  "outlineEntries res =
     (case res of
        Inl e \<Rightarrow> []
      | Inr d \<Rightarrow> map (\<lambda>r. (entry d r ''Title'', entry d r ''Dest'')) (outlineItems d))"

text \<open>The \<open>Dest\<close> array that \<open>addBookmarksToPdf\<close> builds on document \<open>d\<close> for a bookmark with
  vertical offset \<open>t\<close> whose page read succeeds: the located page, \<open>XYZ\<close>, and the height of
  the first page as the vertical position.\<close>

definition destination :: "variant \<Rightarrow> pdf_doc \<Rightarrow> real \<Rightarrow> pdf_obj" where
  "destination v d t =
     PDFArray [PDFRef (p_ref (pages d ! nat (targetPageIdx v t (length (pages d))))),
               PDFName ''XYZ'', PDFNull, PDFNumber (p_height (hd (pages d))), PDFNull]"

section \<open>Headings of a document\<close>

text \<open>What the claims call the headings of a Markdown input: its heading tokens, in document
  order. \<open>headingsOf\<close> lists the records that a conversion has to capture for them, and
  \<open>headingRaws\<close> the strings the parser passes as \<open>raw\<close>.\<close>

fun isHeading :: "token \<Rightarrow> bool" where
  "isHeading (Heading text level raw) = True"
| "isHeading (Code code language) = False"
| "isHeading (Html s) = False"

fun headingsOf :: "token list \<Rightarrow> heading list" where
  "headingsOf [] = []"
| "headingsOf (Heading text level raw # ts) =
     \<lparr>h_level = level, h_text = raw, h_id = replaceNonWord (toLowerCase raw)\<rparr> # headingsOf ts"
| "headingsOf (Code code language # ts) = headingsOf ts"
| "headingsOf (Html s # ts) = headingsOf ts"


section \<open>What the parser passes as \<open>raw\<close>, and what the name object holds\<close>






















section \<open>Example inputs\<close>

text \<open>A printed A4 document of two pages (841.89 points high) without an outline.\<close>

definition docA4 :: pdf_doc where
  "docA4 =
     \<lparr>ctx = \<lparr>largestObjectNumber = 9,
             indirectObjects = [1 \<mapsto> PDFDict [(''Type'', PDFName ''Pages'')]]\<rparr>,
      catalog = [(''Type'', PDFName ''Catalog''), (''Pages'', PDFRef 1)],
      pages = [\<lparr>p_ref = 4, p_height = 841.89\<rparr>, \<lparr>p_ref = 7, p_height = 841.89\<rparr>]\<rparr>"

text \<open>Two located headings, the second one more than a page height below the first.\<close>

definition bookmarksTitleSub :: "bookmark list" where
  "bookmarksTitleSub =
     [\<lparr>b_title = ''Title'', b_level = 1, b_top = 40\<rparr>,
      \<lparr>b_title = ''Sub'', b_level = 2, b_top = 1000\<rparr>]"

text \<open>A heading that the layout places one pixel above the top of the document.\<close>

definition bookmarkAbove :: bookmark where
  "bookmarkAbove = \<lparr>b_title = ''Intro'', b_level = 1, b_top = - 1\<rparr>"

text \<open>The document \<open># Title\<close>, a paragraph, \<open>## Sub\<close>; a document without headings; a document
  with two headings titled \<open>Notes\<close>; and the renderer calls for \<open>## Fast & *safe*\<close>, a
  paragraph and \<open>## Issue #42\<close>.\<close>

definition mdTitleSub :: "token list" where
  "mdTitleSub = [Heading ''Title'' 1 ''Title'', Html ''<p>Some text</p>'', Heading ''Sub'' 2 ''Sub'']"

definition mdPlain :: "token list" where
  "mdPlain = [Html ''<p>Some text</p>'', Code ''x = 1'' (Some ''Python'')]"

definition mdNotes :: "token list" where
  "mdNotes =
     [Heading ''Notes'' 1 ''Notes'', Html ''<p>first</p>'',
      Heading ''Notes'' 2 ''Notes'', Html ''<p>second</p>'']"





text \<open>Three located headings, the second one a pixel above the top of the document.\<close>

definition bookmarksMixed :: "bookmark list" where
  "bookmarksMixed =
     [\<lparr>b_title = ''Title'', b_level = 1, b_top = 40\<rparr>,
      \<lparr>b_title = ''Intro'', b_level = 1, b_top = - 1\<rparr>,
      \<lparr>b_title = ''Sub'', b_level = 2, b_top = 1000\<rparr>]"

text \<open>Browser pages: one without any element that carries an id, one whose script never sets
  the render-complete flag, one that shows the two \<open>Notes\<close> headings, one that shows the
  headings of \<open>mdFast\<close> and one that shows the heading of \<open>mdBold\<close>.\<close>

definition pagePlain :: page_state where
  "pagePlain = \<lparr>readyAt = Some 250, elements = [], printed = docA4\<rparr>"

definition pageHung :: page_state where
  "pageHung = \<lparr>readyAt = None, elements = [(''title'', 40)], printed = docA4\<rparr>"

definition pageNotes :: page_state where
  "pageNotes = \<lparr>readyAt = Some 250, elements = [(''notes'', 80), (''notes'', 400)], printed = docA4\<rparr>"



definition browserPlain :: "string \<Rightarrow> string \<Rightarrow> page_state" where
  "browserPlain documentTitle htmlContent = pagePlain"

definition browserHung :: "string \<Rightarrow> string \<Rightarrow> page_state" where
  "browserHung documentTitle htmlContent = pageHung"

definition browserNotes :: "string \<Rightarrow> string \<Rightarrow> page_state" where
  "browserNotes documentTitle htmlContent = pageNotes"



section \<open>The page locator\<close>

lemma pageNum_mono: "a \<le> b \<Longrightarrow> pageNum v a \<le> pageNum v b"
  by (cases v) (simp_all add: pageNum_def floor_mono divide_right_mono)

lemma targetPageIdx_mono: "a \<le> b \<Longrightarrow> targetPageIdx v a n \<le> targetPageIdx v b n"
  using pageNum_mono [of a b v] by (cases v) (auto simp: targetPageIdx_def)

lemma targetPageIdx_upper: "targetPageIdx v t n \<le> int n - 1"
  by (cases v) (simp_all add: targetPageIdx_def)

lemma targetPageIdx_Standalone_lower: "0 < n \<Longrightarrow> 0 \<le> targetPageIdx Standalone t n"
  by (simp add: targetPageIdx_def)

lemma pageAt_Some: "0 \<le> k \<Longrightarrow> k \<le> int (length ps) - 1 \<Longrightarrow> pageAt ps k = Some (ps ! nat k)"
  by (simp add: pageAt_def)

text \<open>
  Claim C9. The page locator is monotonic: of two heading positions measured against the
  same page array, the one with the smaller vertical offset never gets the larger page index.
  This holds in both scripts.
\<close>

theorem locate_monotonic:
  "a < b \<Longrightarrow> targetPageIdx v a n \<le> targetPageIdx v b n"
  using targetPageIdx_mono [of a b v n] by simp

theorem locate_monotonic_witness:
  "(100::real) < 2000 \<and> targetPageIdx Server 100 3 \<le> targetPageIdx Server 2000 3"
  using locate_monotonic [of 100 2000 Server 3] by simp

text \<open>The stand-alone script clamps the page number on both sides, so its page read never
  leaves the array. The server script agrees with it for offsets that are not negative.\<close>

lemma targetPageIdx_Standalone:
  "0 < n \<Longrightarrow>
     targetPageIdx Standalone t n = max 0 (min \<lfloor>t / 841.89\<rfloor> (int n - 1))
     \<and> 0 \<le> targetPageIdx Standalone t n \<and> targetPageIdx Standalone t n \<le> int n - 1"
  by (auto simp: targetPageIdx_def pageNum_def)

lemma pageAt_Standalone: "ps \<noteq> [] \<Longrightarrow> pageAt ps (targetPageIdx Standalone t (length ps)) \<noteq> None"
  by (auto simp: targetPageIdx_def pageAt_def)

lemma targetPageIdx_Server_negative: "t < 0 \<Longrightarrow> targetPageIdx Server t n < 0"
  by (simp add: targetPageIdx_def pageNum_def floor_less_iff min_less_iff_disj)

lemma targetPageIdx_Server:
  "0 < n \<Longrightarrow> 0 \<le> t \<Longrightarrow>
     targetPageIdx Server t n = max 0 (min \<lfloor>t / 900\<rfloor> (int n - 1))
     \<and> 0 \<le> targetPageIdx Server t n \<and> targetPageIdx Server t n \<le> int n - 1"
  by (auto simp: targetPageIdx_def pageNum_def)

text \<open>
  Claim C3. The page locator computes \<open>floor(verticalOffsetPx / pageHeightPx)\<close> and clamps it
  to \<open>[0, pageCount - 1]\<close>. The server script divides by the constant 900 and only applies the
  upper bound \<open>Math.min(pageNum, pages.length - 1)\<close>: for the offset \<open>-1\<close> and one page it
  computes the index \<open>-1\<close>, where the stand-alone script (constant 841.89, lower bound
  \<open>Math.max(0, pageNum)\<close>) computes 0.
\<close>

theorem server_page_index_not_clamped_below:
  "pageNum Server (- 1) = - 1 \<and> targetPageIdx Server (- 1) 1 = - 1
   \<and> targetPageIdx Standalone (- 1) 1 = 0"
  by (simp add: targetPageIdx_def pageNum_def)

section \<open>The code renderer\<close>

text \<open>The stand-alone script replaces each of the five characters by its entity, in one pass
  over the code, and leaves every other character alone.\<close>

lemma escapeCode_no_markup:
  \<open>c \<in> set (escapeCode code) \<Longrightarrow> c \<noteq> CHR ''<'' \<and> c \<noteq> CHR ''>'' \<and> c \<noteq> CHR 0x22 \<and> c \<noteq> CHR 0x27\<close>
  by (induction code) (auto simp: escapeCode_def escapeChar_def split: if_splits)

lemma escapeCode_plain:
  \<open>\<forall>c\<in>set code. c \<notin> {CHR ''&'', CHR ''<'', CHR ''>'', CHR 0x22, CHR 0x27} \<Longrightarrow> escapeCode code = code\<close>
  by (induction code) (auto simp: escapeCode_def escapeChar_def)

lemma renderer_code_Standalone:
  \<open>\<exists>lang. renderer_code Standalone code language =
     ''<pre><code class="language-'' @ lang @ ''">'' @ concat (map escapeChar code) @ ''</code></pre>''\<close>
  by (simp add: renderer_code_def escapeCode_def Let_def)

lemma renderer_code_Standalone_example:
  \<open>renderer_code Standalone ''a < b && c'' (Some ''C'') =
     ''<pre><code class="language-c">a &lt; b &amp;&amp; c</code></pre>''\<close>
  by code_simp

text \<open>
  Claim C2. The code renderer escapes the five characters \<open>& < > " '\<close> of a fenced code block
  before it embeds the code in the HTML. The server script embeds the code as it is: the
  characters \<open><\<close> and \<open>&\<close> of the block below reach the HTML unescaped.
\<close>

theorem server_code_not_escaped:
  \<open>renderer_code Server ''a < b && c'' (Some ''C'') =
     ''<pre><code class="language-c">a < b && c</code></pre>''\<close>
  by code_simp

section \<open>The outline graph\<close>

lemma nextRefs_eq:
  "nextRefs bs c =
     (map (\<lambda>i. largestObjectNumber c + 1 + i) [0..<length bs],
      c\<lparr>largestObjectNumber := largestObjectNumber c + length bs\<rparr>)"
proof (induction bs arbitrary: c)
  case Nil
  show ?case by simp
next
  case (Cons b bs)
  show ?case
    by (simp add: Cons.IH nextRef_def map_upt_Suc del: upt_Suc)
qed

lemma items_loop_ok:
  assumes located: "\<forall>j<length bs. pageAt ps (targetPageIdx v (b_top (bs ! j)) (length ps)) \<noteq> None"
    and dist: "distinct itemRefs"
    and len: "length itemRefs = length bs"
  shows "\<exists>c'. items_loop v ps ph orf itemRefs bs i c = Inr c'
           \<and> (\<forall>j. i \<le> j \<and> j < length bs \<longrightarrow>
                indirectObjects c' (itemRefs ! j) =
                  Some (PDFDict (itemDict orf itemRefs (length bs) j (bs ! j)
                    (the (pageAt ps (targetPageIdx v (b_top (bs ! j)) (length ps)))) ph)))
           \<and> (\<forall>r. r \<notin> set (drop i itemRefs) \<longrightarrow> indirectObjects c' r = indirectObjects c r)"
proof (induction "length bs - i" arbitrary: i c)
  case 0
  then have "\<not> i < length bs" by simp
  then show ?case by (auto simp: items_loop.simps)
next
  case (Suc k)
  then have i: "i < length bs" by simp
  from located i obtain page where
    page: "pageAt ps (targetPageIdx v (b_top (bs ! i)) (length ps)) = Some page" by auto
  let ?D = "PDFDict (itemDict orf itemRefs (length bs) i (bs ! i) page ph)"
  let ?c0 = "assign (itemRefs ! i) ?D c"
  from Suc have "k = length bs - (i + 1)" by simp
  from Suc.hyps(1) [OF this, of ?c0] obtain c' where
    run: "items_loop v ps ph orf itemRefs bs (i + 1) ?c0 = Inr c'"
    and later: "\<forall>j. i + 1 \<le> j \<and> j < length bs \<longrightarrow>
                indirectObjects c' (itemRefs ! j) =
                  Some (PDFDict (itemDict orf itemRefs (length bs) j (bs ! j)
                    (the (pageAt ps (targetPageIdx v (b_top (bs ! j)) (length ps)))) ph))"
    and other: "\<forall>r. r \<notin> set (drop (i + 1) itemRefs) \<longrightarrow> indirectObjects c' r = indirectObjects ?c0 r"
    by blast
  have split: "drop i itemRefs = itemRefs ! i # drop (Suc i) itemRefs"
    using i len by (simp add: Cons_nth_drop_Suc)
  from dist have "distinct (drop i itemRefs)" by simp
  with split have fresh: "itemRefs ! i \<notin> set (drop (Suc i) itemRefs)" by simp
  have here: "indirectObjects c' (itemRefs ! i) = Some ?D"
    using other fresh by (simp add: assign_def)
  have "items_loop v ps ph orf itemRefs bs i c = Inr c'"
    using i page run by (subst items_loop.simps) simp
  moreover have "\<forall>j. i \<le> j \<and> j < length bs \<longrightarrow>
                indirectObjects c' (itemRefs ! j) =
                  Some (PDFDict (itemDict orf itemRefs (length bs) j (bs ! j)
                    (the (pageAt ps (targetPageIdx v (b_top (bs ! j)) (length ps)))) ph))"
  proof (intro allI impI)
    fix j assume j: "i \<le> j \<and> j < length bs"
    show "indirectObjects c' (itemRefs ! j) =
                  Some (PDFDict (itemDict orf itemRefs (length bs) j (bs ! j)
                    (the (pageAt ps (targetPageIdx v (b_top (bs ! j)) (length ps)))) ph))"
    proof (cases "j = i")
      case True
      then show ?thesis using here page by simp
    next
      case False
      with j have "i + 1 \<le> j \<and> j < length bs" by simp
      with later show ?thesis by blast
    qed
  qed
  moreover have "\<forall>r. r \<notin> set (drop i itemRefs) \<longrightarrow> indirectObjects c' r = indirectObjects c r"
  proof (intro allI impI)
    fix r assume "r \<notin> set (drop i itemRefs)"
    with split have "r \<noteq> itemRefs ! i" and "r \<notin> set (drop (i + 1) itemRefs)" by auto
    with other show "indirectObjects c' r = indirectObjects c r" by (simp add: assign_def)
  qed
  ultimately show ?case by blast
qed

lemma items_loop_largest:
  "items_loop v ps ph orf refs bs i c = Inr c' \<Longrightarrow> largestObjectNumber c \<le> largestObjectNumber c'"
proof (induction v ps ph orf refs bs i c rule: items_loop.induct)
  case (1 v ps ph orf refs bs i c)
  show ?case
  proof (cases "i < length bs")
    case True
    with "1.prems" obtain page where
      page: "pageAt ps (targetPageIdx v (b_top (bs ! i)) (length ps)) = Some page"
      and run: "items_loop v ps ph orf refs bs (i + 1)
                 (assign (refs ! i) (PDFDict (itemDict orf refs (length bs) i (bs ! i) page ph)) c) = Inr c'"
      by (subst (asm) items_loop.simps) (auto split: option.splits)
    from "1.IH" [OF True page run] show ?thesis by (simp add: assign_def)
  next
    case False
    with "1.prems" show ?thesis by (simp add: items_loop.simps)
  qed
qed

lemma addBookmarks_result:
  assumes ne: "bs \<noteq> []"
    and pg: "pages doc \<noteq> []"
    and loc: "\<forall>b\<in>set bs. 0 \<le> targetPageIdx v (b_top b) (length (pages doc))"
  defines "rootRef \<equiv> largestObjectNumber (ctx doc) + 1"
  shows "\<exists>out. addBookmarksToPdf v doc bs = Inr out
           \<and> pages out = pages doc
           \<and> catalog out = dict_set ''Outlines'' (PDFRef rootRef) (catalog doc)
           \<and> indirectObjects (ctx out) rootRef =
               Some (PDFDict [(''Type'', PDFName ''Outlines''),
                              (''First'', PDFRef (rootRef + 1)),
                              (''Last'', PDFRef (rootRef + length bs)),
                              (''Count'', PDFNumber (real (length bs)))])
           \<and> (\<forall>i<length bs.
                 indirectObjects (ctx out) (rootRef + 1 + i) =
                   Some (PDFDict (itemDict rootRef (map (\<lambda>j. rootRef + 1 + j) [0..<length bs]) (length bs) i
                     (bs ! i)
                     (pages doc ! nat (targetPageIdx v (b_top (bs ! i)) (length (pages doc))))
                     (p_height (hd (pages doc))))))
           \<and> (\<forall>r. r < rootRef \<or> rootRef + length bs < r \<longrightarrow>
                 indirectObjects (ctx out) r = indirectObjects (ctx doc) r)
           \<and> rootRef + length bs \<le> largestObjectNumber (ctx out)"
proof -
  let ?N = "length bs"
  let ?refs = "map (\<lambda>j. rootRef + 1 + j) [0..<?N]"
  let ?idx = "\<lambda>j. targetPageIdx v (b_top (bs ! j)) (length (pages doc))"
  have ps: "\<And>a f. (case pages doc of [] \<Rightarrow> a | p0 # x \<Rightarrow> f p0) = f (hd (pages doc))"
    using pg by (cases "pages doc") auto
  have n0: "(length bs = 0) = False" using ne by simp
  let ?c2 = "(ctx doc)\<lparr>largestObjectNumber := rootRef + ?N\<rparr>"
  have range: "\<forall>j<?N. 0 \<le> ?idx j \<and> ?idx j < int (length (pages doc))"
  proof (intro allI impI)
    fix j assume "j < ?N"
    then have "bs ! j \<in> set bs" by simp
    with loc have "0 \<le> ?idx j" by blast
    moreover have "?idx j \<le> int (length (pages doc)) - 1" by (rule targetPageIdx_upper)
    ultimately show "0 \<le> ?idx j \<and> ?idx j < int (length (pages doc))" by simp
  qed
  then have located: "\<forall>j<?N. pageAt (pages doc) (?idx j) \<noteq> None"
    by (simp add: pageAt_def)
  have dist: "distinct ?refs" by (simp add: distinct_map inj_on_def)
  have len: "length ?refs = ?N" by simp
  from items_loop_ok [OF located dist len, of "p_height (hd (pages doc))" rootRef 0 ?c2] obtain c3 where
    run: "items_loop v (pages doc) (p_height (hd (pages doc))) rootRef ?refs bs 0 ?c2 = Inr c3"
    and items: "\<forall>j. j < ?N \<longrightarrow>
                  indirectObjects c3 (?refs ! j) =
                    Some (PDFDict (itemDict rootRef ?refs ?N j (bs ! j)
                      (the (pageAt (pages doc) (?idx j))) (p_height (hd (pages doc)))))"
    and other: "\<forall>r. r \<notin> set ?refs \<longrightarrow> indirectObjects c3 r = indirectObjects ?c2 r"
    by auto
  let ?rootDict = "PDFDict [(''Type'', PDFName ''Outlines''),
                              (''First'', PDFRef (rootRef + 1)),
                              (''Last'', PDFRef (rootRef + ?N)),
                              (''Count'', PDFNumber (real ?N))]"
  let ?out = "doc\<lparr>ctx := assign rootRef ?rootDict c3,
                   catalog := dict_set ''Outlines'' (PDFRef rootRef) (catalog doc)\<rparr>"
  have N: "0 < ?N" using ne by simp
  have refs: "nextRefs bs ((ctx doc)\<lparr>largestObjectNumber := rootRef\<rparr>) = (?refs, ?c2)"
    by (simp add: nextRefs_eq)
  have first: "?refs ! 0 = rootRef + 1" using N by (simp del: upt_Suc)
  have last: "?refs ! (length ?refs - 1) = rootRef + ?N" using N by (simp del: upt_Suc)
  have res: "addBookmarksToPdf v doc bs = Inr ?out"
    apply (simp only: addBookmarksToPdf_def n0 if_False ps Let_def nextRef_def
        rootRef_def [symmetric] refs prod.case run sum.case first last)
    apply (simp add: dict_set_def)
    done
  have "indirectObjects (ctx ?out) rootRef = Some ?rootDict"
    by (simp add: assign_def)
  moreover have "\<forall>i<?N. indirectObjects (ctx ?out) (rootRef + 1 + i) =
                   Some (PDFDict (itemDict rootRef ?refs ?N i (bs ! i)
                     (pages doc ! nat (?idx i)) (p_height (hd (pages doc)))))"
  proof (intro allI impI)
    fix i assume i: "i < ?N"
    with items have "indirectObjects c3 (?refs ! i) =
                    Some (PDFDict (itemDict rootRef ?refs ?N i (bs ! i)
                      (the (pageAt (pages doc) (?idx i))) (p_height (hd (pages doc)))))" by blast
    moreover have "?refs ! i = rootRef + 1 + i" using i by (simp del: upt_Suc)
    moreover have "the (pageAt (pages doc) (?idx i)) = pages doc ! nat (?idx i)"
      using range i by (simp add: pageAt_def)
    ultimately show "indirectObjects (ctx ?out) (rootRef + 1 + i) =
                   Some (PDFDict (itemDict rootRef ?refs ?N i (bs ! i)
                     (pages doc ! nat (?idx i)) (p_height (hd (pages doc)))))"
      by (simp add: assign_def)
  qed
  moreover have "\<forall>r. r < rootRef \<or> rootRef + ?N < r \<longrightarrow>
                 indirectObjects (ctx ?out) r = indirectObjects (ctx doc) r"
  proof (intro allI impI)
    fix r assume r: "r < rootRef \<or> rootRef + ?N < r"
    then have "r \<notin> set ?refs" by auto
    with other have "indirectObjects c3 r = indirectObjects (ctx doc) r" by simp
    with r show "indirectObjects (ctx ?out) r = indirectObjects (ctx doc) r"
      by (auto simp: assign_def)
  qed
  moreover have "rootRef + ?N \<le> largestObjectNumber (ctx ?out)"
    using items_loop_largest [OF run] by (simp add: assign_def)
  ultimately show ?thesis using res by simp
qed

lemma itemDict_entries:
  "dict_get (itemDict orf refs n i b page ph) ''Title'' = Some (PDFName (b_title b))"
  "dict_get (itemDict orf refs n i b page ph) ''Parent'' = Some (PDFRef orf)"
  "dict_get (itemDict orf refs n i b page ph) ''Dest'' =
     Some (PDFArray [PDFRef (p_ref page), PDFName ''XYZ'', PDFNull, PDFNumber ph, PDFNull])"
  "dict_get (itemDict orf refs n i b page ph) ''Prev'' =
     (if 0 < i then Some (PDFRef (refs ! (i - 1))) else None)"
  "dict_get (itemDict orf refs n i b page ph) ''Next'' =
     (if i < n - 1 then Some (PDFRef (refs ! (i + 1))) else None)"
  by (simp_all add: itemDict_def dict_get_def)

lemma siblings_chain:
  assumes nxt: "\<forall>i<length nodes. entry d (nodes ! i) ''Next'' =
                  (if i = length nodes - 1 then None else Some (PDFRef (nodes ! (i + 1))))"
  shows "i < length nodes \<Longrightarrow> length nodes - i \<le> fuel \<Longrightarrow> siblings d fuel (nodes ! i) = drop i nodes"
proof (induction fuel arbitrary: i)
  case 0
  then show ?case by simp
next
  case (Suc fuel)
  show ?case
  proof (cases "i = length nodes - 1")
    case True
    with Suc.prems nxt have "entry d (nodes ! i) ''Next'' = None" by simp
    moreover have "drop i nodes = [nodes ! i]"
      using True Suc.prems(1) Cons_nth_drop_Suc [of i nodes] by simp
    ultimately show ?thesis by simp
  next
    case False
    with Suc.prems have i': "i + 1 < length nodes" by simp
    with nxt False Suc.prems have "entry d (nodes ! i) ''Next'' = Some (PDFRef (nodes ! (i + 1)))"
      by simp
    moreover have "siblings d fuel (nodes ! (i + 1)) = drop (i + 1) nodes"
      using Suc.IH [OF i'] Suc.prems by simp
    ultimately show ?thesis
      using Cons_nth_drop_Suc [OF Suc.prems(1)] by simp
  qed
qed

lemma addBookmarks_walk:
  assumes ne: "bs \<noteq> []"
    and pg: "pages doc \<noteq> []"
    and loc: "\<forall>b\<in>set bs. 0 \<le> targetPageIdx v (b_top b) (length (pages doc))"
  defines "rootRef \<equiv> largestObjectNumber (ctx doc) + 1"
  defines "nodes \<equiv> map (\<lambda>j. rootRef + 1 + j) [0..<length bs]"
  shows "\<exists>out. addBookmarksToPdf v doc bs = Inr out
           \<and> dict_get (catalog out) ''Outlines'' = Some (PDFRef rootRef)
           \<and> indirectObjects (ctx out) rootRef =
               Some (PDFDict [(''Type'', PDFName ''Outlines''),
                              (''First'', PDFRef (nodes ! 0)),
                              (''Last'', PDFRef (nodes ! (length bs - 1))),
                              (''Count'', PDFNumber (real (length bs)))])
           \<and> (\<forall>i<length bs.
                 indirectObjects (ctx out) (nodes ! i) =
                   Some (PDFDict (itemDict rootRef nodes (length bs) i (bs ! i)
                     (pages doc ! nat (targetPageIdx v (b_top (bs ! i)) (length (pages doc))))
                     (p_height (hd (pages doc))))))
           \<and> outlineItems out = nodes"
proof -
  let ?N = "length bs"
  have N: "0 < ?N" using ne by simp
  have len: "length nodes = ?N" by (simp add: nodes_def)
  have nth: "\<And>i. i < ?N \<Longrightarrow> nodes ! i = rootRef + 1 + i"
    by (simp add: nodes_def del: upt_Suc)
  from addBookmarks_result [OF ne pg loc] obtain out where
    res: "addBookmarksToPdf v doc bs = Inr out"
    and cat: "catalog out = dict_set ''Outlines'' (PDFRef rootRef) (catalog doc)"
    and rootD: "indirectObjects (ctx out) rootRef =
               Some (PDFDict [(''Type'', PDFName ''Outlines''),
                              (''First'', PDFRef (rootRef + 1)),
                              (''Last'', PDFRef (rootRef + ?N)),
                              (''Count'', PDFNumber (real ?N))])"
    and items: "\<forall>i<?N. indirectObjects (ctx out) (rootRef + 1 + i) =
                   Some (PDFDict (itemDict rootRef nodes ?N i (bs ! i)
                     (pages doc ! nat (targetPageIdx v (b_top (bs ! i)) (length (pages doc))))
                     (p_height (hd (pages doc)))))"
    and large: "rootRef + ?N \<le> largestObjectNumber (ctx out)"
    unfolding rootRef_def nodes_def by blast
  have outl: "dict_get (catalog out) ''Outlines'' = Some (PDFRef rootRef)"
    by (simp add: cat dict_get_def dict_set_def update_Some_unfold)
  have rootD': "indirectObjects (ctx out) rootRef =
               Some (PDFDict [(''Type'', PDFName ''Outlines''),
                              (''First'', PDFRef (nodes ! 0)),
                              (''Last'', PDFRef (nodes ! (?N - 1))),
                              (''Count'', PDFNumber (real ?N))])"
    using N rootD by (simp add: nth)
  have items': "\<forall>i<?N.
                 indirectObjects (ctx out) (nodes ! i) =
                   Some (PDFDict (itemDict rootRef nodes ?N i (bs ! i)
                     (pages doc ! nat (targetPageIdx v (b_top (bs ! i)) (length (pages doc))))
                     (p_height (hd (pages doc)))))"
    using items by (auto simp: nth)
  have "\<forall>i<length nodes. entry out (nodes ! i) ''Next'' =
                  (if i = length nodes - 1 then None else Some (PDFRef (nodes ! (i + 1))))"
    using items' len by (auto simp: entry_def itemDict_entries)
  from siblings_chain [OF this, of 0 "largestObjectNumber (ctx out)"]
  have "siblings out (largestObjectNumber (ctx out)) (nodes ! 0) = nodes"
    using N len large by simp
  moreover have "entry out rootRef ''First'' = Some (PDFRef (nodes ! 0))"
    by (simp add: entry_def rootD' dict_get_def)
  ultimately have "outlineItems out = nodes"
    by (simp add: outlineItems_def outl)
  with res outl rootD' items' show ?thesis by blast
qed

lemma outlineTitles_entries: "outlineTitles res = map fst (outlineEntries res)"
  by (cases res) (simp_all add: outlineTitles_def outlineEntries_def o_def)

lemma addBookmarks_entries:
  assumes "bs \<noteq> []"
    and "pages doc \<noteq> []"
    and "\<forall>b\<in>set bs. 0 \<le> targetPageIdx v (b_top b) (length (pages doc))"
  shows "\<exists>out. addBookmarksToPdf v doc bs = Inr out
           \<and> outlineEntries (Inr out) =
               map (\<lambda>b. (Some (PDFName (b_title b)), Some (destination v doc (b_top b)))) bs"
proof -
  define rootRef where "rootRef = largestObjectNumber (ctx doc) + 1"
  define nodes where "nodes = map (\<lambda>j. rootRef + 1 + j) [0..<length bs]"
  from addBookmarks_walk [OF assms] obtain out where
    res: "addBookmarksToPdf v doc bs = Inr out"
    and walk: "outlineItems out = nodes"
    and items: "\<forall>i<length bs.
                 indirectObjects (ctx out) (nodes ! i) =
                   Some (PDFDict (itemDict rootRef nodes (length bs) i (bs ! i)
                     (pages doc ! nat (targetPageIdx v (b_top (bs ! i)) (length (pages doc))))
                     (p_height (hd (pages doc)))))"
    unfolding rootRef_def nodes_def by blast
  have len: "length nodes = length bs" by (simp add: nodes_def)
  have "\<forall>i<length bs.
          entry out (nodes ! i) ''Title'' = Some (PDFName (b_title (bs ! i)))
          \<and> entry out (nodes ! i) ''Dest'' = Some (destination v doc (b_top (bs ! i)))"
    using items by (simp add: entry_def itemDict_entries destination_def)
  then have "map (\<lambda>r. (entry out r ''Title'', entry out r ''Dest'')) nodes =
               map (\<lambda>b. (Some (PDFName (b_title b)), Some (destination v doc (b_top b)))) bs"
    using len by (simp add: list_eq_iff_nth_eq)
  with res walk show ?thesis by (simp add: outlineEntries_def)
qed

lemma addBookmarks_titles:
  assumes "bs \<noteq> []"
    and "pages doc \<noteq> []"
    and "\<forall>b\<in>set bs. 0 \<le> targetPageIdx v (b_top b) (length (pages doc))"
  shows "\<exists>out. addBookmarksToPdf v doc bs = Inr out
           \<and> outlineTitles (Inr out) = map (\<lambda>b. Some (PDFName (b_title b))) bs"
proof -
  from addBookmarks_entries [OF assms] obtain out where
    "addBookmarksToPdf v doc bs = Inr out"
    and "outlineEntries (Inr out) =
           map (\<lambda>b. (Some (PDFName (b_title b)), Some (destination v doc (b_top b)))) bs"
    by blast
  then show ?thesis by (simp add: outlineTitles_entries o_def)
qed

text \<open>The outline that \<open>addBookmarksToPdf\<close> attaches when every page read succeeds.\<close>

lemma outline_graph_located:
  assumes ne: "bs \<noteq> []"
    and pg: "pages doc \<noteq> []"
    and loc: "\<forall>b\<in>set bs. 0 \<le> targetPageIdx v (b_top b) (length (pages doc))"
  shows "\<exists>out rootRef nodes.
           addBookmarksToPdf v doc bs = Inr out
           \<and> dict_get (catalog out) ''Outlines'' = Some (PDFRef rootRef)
           \<and> outlineItems out = nodes
           \<and> length nodes = length bs \<and> distinct nodes \<and> rootRef \<notin> set nodes
           \<and> entry out rootRef ''First'' = Some (PDFRef (nodes ! 0))
           \<and> entry out rootRef ''Last'' = Some (PDFRef (nodes ! (length bs - 1)))
           \<and> entry out rootRef ''Count'' = Some (PDFNumber (real (length bs)))
           \<and> (\<forall>i<length bs.
                  entry out (nodes ! i) ''Title'' = Some (PDFName (b_title (bs ! i)))
                \<and> entry out (nodes ! i) ''Parent'' = Some (PDFRef rootRef)
                \<and> entry out (nodes ! i) ''Prev'' =
                    (if i = 0 then None else Some (PDFRef (nodes ! (i - 1))))
                \<and> entry out (nodes ! i) ''Next'' =
                    (if i = length bs - 1 then None else Some (PDFRef (nodes ! (i + 1)))))"
proof -
  let ?N = "length bs"
  define rootRef where "rootRef = largestObjectNumber (ctx doc) + 1"
  define nodes where "nodes = map (\<lambda>j. rootRef + 1 + j) [0..<?N]"
  from addBookmarks_walk [OF ne pg loc] obtain out where
    res: "addBookmarksToPdf v doc bs = Inr out"
    and outl: "dict_get (catalog out) ''Outlines'' = Some (PDFRef rootRef)"
    and rootD: "indirectObjects (ctx out) rootRef =
               Some (PDFDict [(''Type'', PDFName ''Outlines''),
                              (''First'', PDFRef (nodes ! 0)),
                              (''Last'', PDFRef (nodes ! (?N - 1))),
                              (''Count'', PDFNumber (real ?N))])"
    and items: "\<forall>i<?N.
                 indirectObjects (ctx out) (nodes ! i) =
                   Some (PDFDict (itemDict rootRef nodes ?N i (bs ! i)
                     (pages doc ! nat (targetPageIdx v (b_top (bs ! i)) (length (pages doc))))
                     (p_height (hd (pages doc)))))"
    and walk: "outlineItems out = nodes"
    unfolding rootRef_def nodes_def by blast
  have len: "length nodes = ?N" by (simp add: nodes_def)
  have dist: "distinct nodes" by (simp add: nodes_def distinct_map inj_on_def)
  have notin: "rootRef \<notin> set nodes" by (auto simp: nodes_def)
  have first: "entry out rootRef ''First'' = Some (PDFRef (nodes ! 0))"
    by (simp add: entry_def rootD dict_get_def)
  have last: "entry out rootRef ''Last'' = Some (PDFRef (nodes ! (?N - 1)))"
    by (simp add: entry_def rootD dict_get_def)
  have count: "entry out rootRef ''Count'' = Some (PDFNumber (real ?N))"
    by (simp add: entry_def rootD dict_get_def)
  have node: "\<forall>i<?N.
                  entry out (nodes ! i) ''Title'' = Some (PDFName (b_title (bs ! i)))
                \<and> entry out (nodes ! i) ''Parent'' = Some (PDFRef rootRef)
                \<and> entry out (nodes ! i) ''Prev'' =
                    (if i = 0 then None else Some (PDFRef (nodes ! (i - 1))))
                \<and> entry out (nodes ! i) ''Next'' =
                    (if i = ?N - 1 then None else Some (PDFRef (nodes ! (i + 1))))"
  proof (intro allI impI)
    fix i assume i: "i < ?N"
    with items have
      "indirectObjects (ctx out) (nodes ! i) =
         Some (PDFDict (itemDict rootRef nodes ?N i (bs ! i)
           (pages doc ! nat (targetPageIdx v (b_top (bs ! i)) (length (pages doc))))
           (p_height (hd (pages doc)))))"
      by blast
    then show "entry out (nodes ! i) ''Title'' = Some (PDFName (b_title (bs ! i)))
                \<and> entry out (nodes ! i) ''Parent'' = Some (PDFRef rootRef)
                \<and> entry out (nodes ! i) ''Prev'' =
                    (if i = 0 then None else Some (PDFRef (nodes ! (i - 1))))
                \<and> entry out (nodes ! i) ''Next'' =
                    (if i = ?N - 1 then None else Some (PDFRef (nodes ! (i + 1))))"
      using i by (auto simp: entry_def itemDict_entries)
  qed
  from res outl walk len dist notin first last count node show ?thesis by blast
qed

text \<open>
  Claim C1. For a non-empty sequence of \<open>N\<close> bookmark entries \<open>addBookmarksToPdf\<close> attaches
  an outline: the catalog's \<open>Outlines\<close> entry is the root reference; following \<open>First\<close> and then
  \<open>Next\<close> visits exactly \<open>N\<close> distinct items, whose titles are those of the entries in input
  order; item 0 has no \<open>Prev\<close>, item \<open>N - 1\<close> no \<open>Next\<close>, every other link names the neighbour;
  every item's \<open>Parent\<close> is the root; the root holds \<open>First\<close> = item 0, \<open>Last\<close> = item \<open>N - 1\<close> and
  \<open>Count\<close> = \<open>N\<close>. The stand-alone script does so for every non-empty sequence, on every
  document with a page. The server script does not: for the three entries of
  \<open>bookmarksMixed\<close>, of which the second has the offset \<open>-1\<close>, it throws and attaches nothing.
\<close>

theorem outline_graph_structure:
  assumes ne: "bs \<noteq> []"
    and pg: "pages doc \<noteq> []"
  shows "(\<exists>out rootRef nodes.
           addBookmarksToPdf Standalone doc bs = Inr out
           \<and> dict_get (catalog out) ''Outlines'' = Some (PDFRef rootRef)
           \<and> outlineItems out = nodes
           \<and> length nodes = length bs \<and> distinct nodes \<and> rootRef \<notin> set nodes
           \<and> entry out rootRef ''First'' = Some (PDFRef (nodes ! 0))
           \<and> entry out rootRef ''Last'' = Some (PDFRef (nodes ! (length bs - 1)))
           \<and> entry out rootRef ''Count'' = Some (PDFNumber (real (length bs)))
           \<and> (\<forall>i<length bs.
                  entry out (nodes ! i) ''Title'' = Some (PDFName (b_title (bs ! i)))
                \<and> entry out (nodes ! i) ''Parent'' = Some (PDFRef rootRef)
                \<and> entry out (nodes ! i) ''Prev'' =
                    (if i = 0 then None else Some (PDFRef (nodes ! (i - 1))))
                \<and> entry out (nodes ! i) ''Next'' =
                    (if i = length bs - 1 then None else Some (PDFRef (nodes ! (i + 1))))))
         \<and> addBookmarksToPdf Server docA4 bookmarksMixed = Inl TypeError"
proof -
  from pg have "0 < length (pages doc)" by simp
  then have loc: "\<forall>b\<in>set bs. 0 \<le> targetPageIdx Standalone (b_top b) (length (pages doc))"
    by (simp add: targetPageIdx_Standalone_lower)
  have server: "addBookmarksToPdf Server docA4 bookmarksMixed = Inl TypeError"
    by (simp add: addBookmarksToPdf_def items_loop.simps nextRef_def pageAt_def targetPageIdx_def
        pageNum_def bookmarksMixed_def docA4_def assign_def)
  from outline_graph_located [OF ne pg loc] server show ?thesis by blast
qed

theorem outline_graph_structure_witness:
  "bookmarksMixed \<noteq> [] \<and> pages docA4 \<noteq> []
   \<and> (\<exists>out rootRef nodes.
         addBookmarksToPdf Standalone docA4 bookmarksMixed = Inr out
         \<and> dict_get (catalog out) ''Outlines'' = Some (PDFRef rootRef)
         \<and> outlineItems out = nodes \<and> length nodes = 3
         \<and> entry out rootRef ''First'' = Some (PDFRef (nodes ! 0))
         \<and> entry out rootRef ''Last'' = Some (PDFRef (nodes ! 2))
         \<and> entry out rootRef ''Count'' = Some (PDFNumber 3)
         \<and> entry out (nodes ! 0) ''Title'' = Some (PDFName ''Title'')
         \<and> entry out (nodes ! 1) ''Title'' = Some (PDFName ''Intro'')
         \<and> entry out (nodes ! 2) ''Title'' = Some (PDFName ''Sub'')
         \<and> entry out (nodes ! 0) ''Prev'' = None
         \<and> entry out (nodes ! 0) ''Next'' = Some (PDFRef (nodes ! 1))
         \<and> entry out (nodes ! 1) ''Prev'' = Some (PDFRef (nodes ! 0))
         \<and> entry out (nodes ! 1) ''Next'' = Some (PDFRef (nodes ! 2))
         \<and> entry out (nodes ! 2) ''Prev'' = Some (PDFRef (nodes ! 1))
         \<and> entry out (nodes ! 2) ''Next'' = None
         \<and> entry out (nodes ! 0) ''Parent'' = Some (PDFRef rootRef)
         \<and> entry out (nodes ! 1) ''Parent'' = Some (PDFRef rootRef)
         \<and> entry out (nodes ! 2) ''Parent'' = Some (PDFRef rootRef))
   \<and> addBookmarksToPdf Server docA4 bookmarksMixed = Inl TypeError"
proof -
  have h1: "bookmarksMixed \<noteq> []" by (simp add: bookmarksMixed_def)
  have h2: "pages docA4 \<noteq> []" by (simp add: docA4_def)
  have len: "length bookmarksMixed = 3" by (simp add: bookmarksMixed_def)
  have t0: "b_title (bookmarksMixed ! 0) = ''Title''" by (simp add: bookmarksMixed_def)
  have t1: "b_title (bookmarksMixed ! 1) = ''Intro''" by (simp add: bookmarksMixed_def)
  have t2: "b_title (bookmarksMixed ! 2) = ''Sub''" by (simp add: bookmarksMixed_def)
  from outline_graph_structure [OF h1 h2] obtain out rootRef nodes where
    res: "addBookmarksToPdf Standalone docA4 bookmarksMixed = Inr out"
    and cat: "dict_get (catalog out) ''Outlines'' = Some (PDFRef rootRef)"
    and walk: "outlineItems out = nodes" and n: "length nodes = 3"
    and first: "entry out rootRef ''First'' = Some (PDFRef (nodes ! 0))"
    and last: "entry out rootRef ''Last'' = Some (PDFRef (nodes ! 2))"
    and count: "entry out rootRef ''Count'' = Some (PDFNumber 3)"
    and items: "\<forall>i<3.
                  entry out (nodes ! i) ''Title'' = Some (PDFName (b_title (bookmarksMixed ! i)))
                \<and> entry out (nodes ! i) ''Parent'' = Some (PDFRef rootRef)
                \<and> entry out (nodes ! i) ''Prev'' =
                    (if i = 0 then None else Some (PDFRef (nodes ! (i - 1))))
                \<and> entry out (nodes ! i) ''Next'' =
                    (if i = 3 - 1 then None else Some (PDFRef (nodes ! (i + 1))))"
    and server: "addBookmarksToPdf Server docA4 bookmarksMixed = Inl TypeError"
    unfolding len by auto
  from items have a0: "entry out (nodes ! 0) ''Title'' = Some (PDFName ''Title'')
                \<and> entry out (nodes ! 0) ''Parent'' = Some (PDFRef rootRef)
                \<and> entry out (nodes ! 0) ''Prev'' = None
                \<and> entry out (nodes ! 0) ''Next'' = Some (PDFRef (nodes ! 1))"
    using t0 by (auto dest: spec [of _ 0])
  from items have a1: "entry out (nodes ! 1) ''Title'' = Some (PDFName ''Intro'')
                \<and> entry out (nodes ! 1) ''Parent'' = Some (PDFRef rootRef)
                \<and> entry out (nodes ! 1) ''Prev'' = Some (PDFRef (nodes ! 0))
                \<and> entry out (nodes ! 1) ''Next'' = Some (PDFRef (nodes ! 2))"
    using t1 by (auto dest: spec [of _ 1] simp flip: numeral_2_eq_2)
  from items have a2: "entry out (nodes ! 2) ''Title'' = Some (PDFName ''Sub'')
                \<and> entry out (nodes ! 2) ''Parent'' = Some (PDFRef rootRef)
                \<and> entry out (nodes ! 2) ''Prev'' = Some (PDFRef (nodes ! 1))
                \<and> entry out (nodes ! 2) ''Next'' = None"
    using t2 by (auto dest: spec [of _ 2])
  from res cat walk n first last count a0 a1 a2 h1 h2 server show ?thesis by blast
qed

text \<open>
  Claim C4. For every vertical offset, negative ones included, and every page count of at
  least one, the page index lies in \<open>[0, pageCount - 1]\<close>, so that the page read is in bounds.
  In the server script the heading placed at offset \<open>-1\<close> gets the index \<open>-1\<close>: the page read
  yields \<open>undefined\<close>, \<open>page.ref\<close> throws, and no document is written. The stand-alone script
  attaches the bookmark to the first page.
\<close>

theorem server_page_access_out_of_bounds:
  "pageAt (pages docA4) (targetPageIdx Server (b_top bookmarkAbove) (length (pages docA4))) = None
   \<and> addBookmarksToPdf Server docA4 [bookmarkAbove] = Inl TypeError
   \<and> outlineTitles (addBookmarksToPdf Standalone docA4 [bookmarkAbove]) = [Some (PDFName ''Intro'')]"
proof -
  have "pageAt (pages docA4) (targetPageIdx Server (b_top bookmarkAbove) (length (pages docA4))) = None"
    by (simp add: pageAt_def targetPageIdx_def pageNum_def bookmarkAbove_def docA4_def)
  moreover have "addBookmarksToPdf Server docA4 [bookmarkAbove] = Inl TypeError"
    by (simp add: addBookmarksToPdf_def items_loop.simps nextRef_def pageAt_def targetPageIdx_def
        pageNum_def bookmarkAbove_def docA4_def)
  moreover have "outlineTitles (addBookmarksToPdf Standalone docA4 [bookmarkAbove]) =
                   [Some (PDFName ''Intro'')]"
    by code_simp
  ultimately show ?thesis by blast
qed

section \<open>The conversion\<close>

lemma parse_headings: "snd (parse v ts hs) = hs @ headingsOf ts"
proof (induction ts arbitrary: hs)
  case Nil
  show ?case by simp
next
  case (Cons t ts)
  show ?case
    by (cases t) (simp_all add: Cons.IH renderer_heading_def split_beta Let_def)
qed

lemma length_headingsOf: "length (headingsOf ts) = length (filter isHeading ts)"
  by (induction ts rule: headingsOf.induct) simp_all

lemma mdToPdf_headings: "snd (mdToPdf v browser md title hs0) = headingsOf md"
  using parse_headings [of v md "[]"]
  by (simp add: mdToPdf_def Let_def split_beta split: sum.splits)

lemma mdToPdf_result:
  assumes "waitFor (waitTimeout v) (readyAt (browser title (fst (parse v md [])))) = Inr ()"
  shows "fst (mdToPdf v browser md title hs0) =
           (if collectBookmarks (elements (browser title (fst (parse v md [])))) (headingsOf md) = []
            then Inr (printed (browser title (fst (parse v md []))))
            else addBookmarksToPdf v (printed (browser title (fst (parse v md []))))
                   (collectBookmarks (elements (browser title (fst (parse v md [])))) (headingsOf md)))"
  using assms parse_headings [of v md "[]"]
  by (simp add: mdToPdf_def Let_def split_beta)

lemma mdToPdf_timeout:
  assumes "waitFor (waitTimeout v) (readyAt (browser title (fst (parse v md [])))) = Inl e"
  shows "fst (mdToPdf v browser md title hs0) = Inl e"
  using assms by (simp add: mdToPdf_def Let_def split_beta)

lemma anchor_examples:
  "replaceNonWord (toLowerCase ''Title'') = ''title''"
  "replaceNonWord (toLowerCase ''Sub'') = ''sub''"
  "replaceNonWord (toLowerCase ''Notes'') = ''notes''"
  "replaceNonWord (toLowerCase ''Fast  safe'') = ''fast-safe''"
  "replaceNonWord (toLowerCase ''Issue #42'') = ''issue-42''"
  "replaceNonWord (toLowerCase ''Bold and code'') = ''bold-and-code''"
  by code_simp+

text \<open>
  Claim C5. One conversion of an input with \<open>H\<close> headings leaves exactly \<open>H\<close> entries in the
  heading list, in document order, whatever the list held before; hence the list after a second
  conversion in the same process holds the headings of the second input only.
\<close>

theorem heading_capture:
  "snd (mdToPdf v browser md title hs0) = headingsOf md
   \<and> length (snd (mdToPdf v browser md title hs0)) = length (filter isHeading md)
   \<and> snd (mdToPdf v browser' md' title' (snd (mdToPdf v browser md title hs0))) = headingsOf md'"
  by (simp add: mdToPdf_headings length_headingsOf)

theorem heading_capture_witness:
  "snd (mdToPdf Server browserPlain mdTitleSub ''doc''
          (snd (mdToPdf Server browserNotes mdNotes ''notes'' []))) =
     [\<lparr>h_level = 1, h_text = ''Title'', h_id = ''title''\<rparr>,
      \<lparr>h_level = 2, h_text = ''Sub'', h_id = ''sub''\<rparr>]"
proof -
  have hs: "headingsOf mdTitleSub =
              [\<lparr>h_level = 1, h_text = ''Title'', h_id = ''title''\<rparr>,
               \<lparr>h_level = 2, h_text = ''Sub'', h_id = ''sub''\<rparr>]"
    by (simp add: mdTitleSub_def anchor_examples)
  from heading_capture [of Server browserNotes mdNotes "''notes''" "[]" browserPlain mdTitleSub "''doc''"]
  have "snd (mdToPdf Server browserPlain mdTitleSub ''doc''
               (snd (mdToPdf Server browserNotes mdNotes ''notes'' []))) = headingsOf mdTitleSub"
    by blast
  then show ?thesis by (simp only: hs)
qed

text \<open>
  Claim C7. The wait for the render-complete flag has a timeout between 30 and 60 seconds;
  when the flag is not set within it, the conversion ends with the timeout error of the wait
  and writes no document.
\<close>

theorem render_wait_bounded:
  "30000 \<le> waitTimeout v \<and> waitTimeout v \<le> 60000
   \<and> ((\<forall>t. readyAt (browser title (fst (parse v md []))) = Some t \<longrightarrow> waitTimeout v < t)
        \<longrightarrow> fst (mdToPdf v browser md title hs0) = Inl TimeoutError)"
proof -
  have "30000 \<le> waitTimeout v \<and> waitTimeout v \<le> 60000"
    by (cases v) (simp_all add: waitTimeout_def)
  moreover have "fst (mdToPdf v browser md title hs0) = Inl TimeoutError"
    if "\<forall>t. readyAt (browser title (fst (parse v md []))) = Some t \<longrightarrow> waitTimeout v < t"
  proof -
    from that have "waitFor (waitTimeout v) (readyAt (browser title (fst (parse v md [])))) = Inl TimeoutError"
      by (auto simp: waitFor_def split: option.splits)
    then show ?thesis by (rule mdToPdf_timeout)
  qed
  ultimately show ?thesis by blast
qed

theorem render_wait_bounded_witness:
  "readyAt (browserHung ''doc'' (fst (parse Server mdTitleSub []))) = None
   \<and> waitTimeout Server = 30000
   \<and> fst (mdToPdf Server browserHung mdTitleSub ''doc'' []) = Inl TimeoutError"
  using render_wait_bounded [of Server browserHung "''doc''" mdTitleSub "[]"]
  by (simp add: browserHung_def pageHung_def waitTimeout_def)

text \<open>
  Claim C8. With an empty sequence of bookmark entries \<open>addBookmarksToPdf\<close> writes the loaded
  document as it is: same pages, same objects, same catalog, hence no \<open>Outlines\<close> key when
  the printed document had none. A conversion in which no heading is located does not call
  it and writes the printed document.
\<close>

theorem empty_entries_unchanged:
  "addBookmarksToPdf v pdfDoc [] = Inr pdfDoc
   \<and> (waitFor (waitTimeout v) (readyAt (browser title (fst (parse v md [])))) = Inr ()
      \<and> collectBookmarks (elements (browser title (fst (parse v md [])))) (headingsOf md) = []
      \<longrightarrow> fst (mdToPdf v browser md title hs0) = Inr (printed (browser title (fst (parse v md [])))))"
  by (simp add: addBookmarksToPdf_def mdToPdf_result)

theorem empty_entries_unchanged_witness:
  "waitFor (waitTimeout Standalone)
     (readyAt (browserPlain ''doc'' (fst (parse Standalone mdPlain [])))) = Inr ()
   \<and> collectBookmarks (elements (browserPlain ''doc'' (fst (parse Standalone mdPlain []))))
       (headingsOf mdPlain) = []
   \<and> fst (mdToPdf Standalone browserPlain mdPlain ''doc'' []) = Inr docA4
   \<and> dict_get (catalog docA4) ''Outlines'' = None
   \<and> addBookmarksToPdf Standalone docA4 [] = Inr docA4"
  using empty_entries_unchanged [of Standalone docA4 browserPlain "''doc''" mdPlain "[]"]
  by (simp add: browserPlain_def pagePlain_def waitTimeout_def waitFor_def mdPlain_def dict_get_def
      docA4_def)

lemma collectBookmarks_eq:
  "collectBookmarks els hs =
     map (\<lambda>h. \<lparr>b_title = h_text h, b_level = h_level h, b_top = the (getElementById els (h_id h))\<rparr>)
       (filter (\<lambda>h. getElementById els (h_id h) \<noteq> None) hs)"
  by (induction hs) (auto split: option.splits)


lemma getElementById_None_iff: "getElementById els i \<noteq> None \<longleftrightarrow> i \<in> fst ` set els"
  by (simp add: getElementById_def map_of_eq_None_iff)


lemma collectBookmarks_not_located:
  "h_id h \<notin> fst ` set els \<Longrightarrow> collectBookmarks els (A @ h # B) = collectBookmarks els (A @ B)"
  using getElementById_None_iff [of els "h_id h"] by (simp add: collectBookmarks_eq)











end
